theory Spec2Isabelle
  imports Complex_Main "HOL-Library.Log_Nat"
begin

section \<open>Antenna pointing controller (GS_embedded_teensy_2/Antenna.h)\<close>

text \<open>
  The class \<open>Antenna\<close> drives two stepper motors from two absolute encoders. Its
  arithmetic mixes C++ \<open>int\<close>, \<open>float\<close> and \<open>double\<close>. The embedding uses
  \<^item> \<open>int\<close> for C++ \<open>int\<close>. In \<open>point_to\<close> the sums and differences of encoder values
    and turn counts are taken in the integers: for readings in \<open>[0, ENCODERS_MAX)\<close> and the
    small turn counts the source assumes they stay far inside the range of \<open>int\<close>. The
    arithmetic of line 83 and the products of lines 135 and 138 multiply by the gear
    constants and can leave that range; every operation there is reduced to 32 bits in
    two's complement, as the processor does (C++ itself leaves the overflow undefined);
  \<^item> \<open>real\<close> for \<open>float\<close> and \<open>double\<close>, with exact arithmetic, except in the loop of
    line 107, where rounding decides whether the loop ends: there the sum is rounded to
    binary64 and then to binary32, to nearest with ties to even;
  \<^item> truncation towards zero for the conversion \<open>(int)x\<close> and for the integer
    operators \<open>/\<close> and \<open>%\<close>, as C++ defines them.
\<close>

subsection \<open>C++ arithmetic\<close>

definition c_div :: "int \<Rightarrow> int \<Rightarrow> int" where
  \<comment> \<open>\<open>a / b\<close> on \<open>int\<close>: the quotient with its fractional part discarded\<close>
  "c_div a b =
     (if (a < 0) = (b < 0) then \<bar>a\<bar> div \<bar>b\<bar> else - (\<bar>a\<bar> div \<bar>b\<bar>))"

definition c_mod :: "int \<Rightarrow> int \<Rightarrow> int" where
  \<comment> \<open>\<open>a % b\<close> on \<open>int\<close>: \<open>(a / b) * b + a % b == a\<close>\<close>
  "c_mod a b = a - c_div a b * b"

definition to_int :: "real \<Rightarrow> int" where
  \<comment> \<open>the conversion of a floating value to \<open>int\<close>: towards zero\<close>
  "to_int x = (if 0 \<le> x then \<lfloor>x\<rfloor> else \<lceil>x\<rceil>)"

definition fits_int :: "int \<Rightarrow> bool" where
  \<comment> \<open>the values of a 32-bit \<open>int\<close>\<close>
  "fits_int x \<longleftrightarrow> - (2 ^ 31) \<le> x \<and> x < 2 ^ 31"

definition wrap_int :: "int \<Rightarrow> int" where
  \<comment> \<open>what a 32-bit register holds of an arithmetic result\<close>
  "wrap_int x = (x + 2 ^ 31) mod 2 ^ 32 - 2 ^ 31"

subsection \<open>Rounding to a binary floating-point format\<close>

text \<open>
  Round to nearest, ties to even, onto the numbers with a significand of \<open>p\<close> bits. The
  exponent is not bounded, so infinities, NaN and subnormal numbers are not represented:
  the only rounded operation of the model adds 360 to a finite negative value, and its
  result is no larger in magnitude than the larger operand, so it cannot overflow.
\<close>

definition binade :: "real \<Rightarrow> int" where
  \<comment> \<open>the exponent \<open>e\<close> with \<open>2^e \<le> |x| < 2^(e+1)\<close>, for \<open>x \<noteq> 0\<close>\<close>
  "binade x =
     (if 1 \<le> \<bar>x\<bar> then bitlen \<lfloor>\<bar>x\<bar>\<rfloor> - 1 else - bitlen (\<lceil>1 / \<bar>x\<bar>\<rceil> - 1))"

definition round_half_even :: "real \<Rightarrow> int" where
  "round_half_even q =
     (let n = \<lfloor>q\<rfloor>; r = q - real_of_int n
      in if r < 1 / 2 then n else if 1 / 2 < r then n + 1 else if even n then n else n + 1)"

definition round_binary :: "nat \<Rightarrow> real \<Rightarrow> real" where
  "round_binary p x =
     (if x = 0 then 0
      else let ulp = 2 powi (binade x - (int p - 1))
           in real_of_int (round_half_even (x / ulp)) * ulp)"

definition to_double :: "real \<Rightarrow> real" where
  "to_double x = round_binary 53 x"

definition to_float :: "real \<Rightarrow> real" where
  "to_float x = round_binary 24 x"

subsection \<open>Constants of define.h\<close>

text \<open>
  \<open>define.h\<close> is included by the source and is not part of it here, so its constants are
  the fields of a configuration. \<open>ENCODERS_MAX\<close> is the right operand of \<open>%\<close> in
  \<open>point_to\<close>, which C++ accepts for integral operands only; the encoder reference
  values, gear reductions and microstep counts are taken as \<open>int\<close> as well, the two
  angles in degrees as floating values.
\<close>

record config =
  ENCODERS_MAX :: int
  AZ_NORTH_ENCODER_VAL :: int
  AZ_MAX_ROTATION_DEG :: real
  AZ_MICRO_STEP_PER_TURN :: int
  AZ_REDUC :: int
  ELEV_ZENITH_SAFETY_MARGIN_DEG :: real
  ELEV_ZENITH_ENCODER_VAL :: int
  ELEV_MICRO_STEP_PER_TURN :: int
  ELEV_REDUC :: int

subsection \<open>The computations of \<open>point_to\<close>\<close>

definition take_shortest_path :: "config \<Rightarrow> int \<Rightarrow> int" where
  \<comment> \<open>lines 117-126 (azimuth) and 168-177 (elevation): the same statement on both axes\<close>
  "take_shortest_path cfg encoder_val_diff =
     (if \<bar>encoder_val_diff\<bar> > c_div (ENCODERS_MAX cfg) 2 then
        (if encoder_val_diff < 0 then encoder_val_diff + ENCODERS_MAX cfg
         else encoder_val_diff - ENCODERS_MAX cfg)
      else encoder_val_diff)"

partial_function (option) az_normalize :: "real \<Rightarrow> real option" where
  \<comment> \<open>line 107: \<open>while (az_deg < 0.0){ az_deg += 360.0;}\<close> on the \<open>float\<close> parameter
      \<open>az_deg\<close>: the sum is formed in \<open>double\<close> and stored back into the \<open>float\<close>;
      \<open>None\<close> is a loop that does not end\<close>
  "az_normalize az_deg =
     (if az_deg < 0 then az_normalize (to_float (to_double (az_deg + 360)))
      else Some az_deg)"

declare az_normalize.simps [code]

definition az_target_encoder_val :: "config \<Rightarrow> real \<Rightarrow> int" where
  \<comment> \<open>line 109, on the value the loop of line 107 leaves in \<open>az_deg\<close>\<close>
  "az_target_encoder_val cfg az_deg =
     c_mod (to_int (az_deg / 360 * real_of_int (ENCODERS_MAX cfg)
                    + real_of_int (AZ_NORTH_ENCODER_VAL cfg)))
           (ENCODERS_MAX cfg)"

definition az_pred_diff_deg_since_init :: "config \<Rightarrow> int \<Rightarrow> int \<Rightarrow> int \<Rightarrow> int \<Rightarrow> real" where
  \<comment> \<open>line 132: the quotient by \<open>ENCODERS_MAX\<close> has two integral operands, so it is
      the integer quotient, converted to a floating value afterwards\<close>
  "az_pred_diff_deg_since_init cfg init_turn_count az_current_turn_count
       az_current_encoder_val az_encoder_val_diff =
     (real_of_int (az_current_turn_count - init_turn_count)
      + real_of_int (c_div (az_current_encoder_val + az_encoder_val_diff) (ENCODERS_MAX cfg)))
     * 360"

definition az_step_to_turn :: "config \<Rightarrow> int \<Rightarrow> int" where
  \<comment> \<open>line 141: a floating product, converted by the initialisation of an \<open>int\<close>\<close>
  "az_step_to_turn cfg az_encoder_val_diff =
     to_int (real_of_int az_encoder_val_diff / real_of_int (ENCODERS_MAX cfg)
             * real_of_int (AZ_REDUC cfg) * real_of_int (AZ_MICRO_STEP_PER_TURN cfg))"

definition elev_safety_check :: "config \<Rightarrow> real \<Rightarrow> real" where
  \<comment> \<open>lines 149-154: two \<open>if\<close> statements, one after the other\<close>
  "elev_safety_check cfg elev_deg =
     (let elev_deg = (if elev_deg > 90 - ELEV_ZENITH_SAFETY_MARGIN_DEG cfg
                      then 90 - ELEV_ZENITH_SAFETY_MARGIN_DEG cfg else elev_deg)
      in if elev_deg < 0 then 0 else elev_deg)"

definition ELEV_HORIZON_ENCODER_OFFSET_VAL :: "config \<Rightarrow> int" where
  \<comment> \<open>line 158\<close>
  "ELEV_HORIZON_ENCODER_OFFSET_VAL cfg =
     c_mod (ELEV_ZENITH_ENCODER_VAL cfg - c_div (ENCODERS_MAX cfg) 4 + ENCODERS_MAX cfg)
           (ENCODERS_MAX cfg)"

definition elev_target_encoder_val :: "config \<Rightarrow> real \<Rightarrow> int" where
  \<comment> \<open>line 160, on the value the safety check leaves in \<open>elev_deg\<close>\<close>
  "elev_target_encoder_val cfg elev_deg =
     c_mod (to_int (elev_deg / 360 * real_of_int (ENCODERS_MAX cfg)
                    + real_of_int (ELEV_HORIZON_ENCODER_OFFSET_VAL cfg)))
           (ENCODERS_MAX cfg)"

definition elev_step_to_turn :: "config \<Rightarrow> int \<Rightarrow> int" where
  \<comment> \<open>line 179\<close>
  "elev_step_to_turn cfg elev_encoder_val_diff =
     to_int (real_of_int elev_encoder_val_diff / real_of_int (ENCODERS_MAX cfg)
             * real_of_int (ELEV_REDUC cfg) * real_of_int (ELEV_MICRO_STEP_PER_TURN cfg))"

subsection \<open>Steppers, encoders and time\<close>

text \<open>
  \<open>Stepper\<close>, \<open>Encoder\<close> and \<open>EncoderMultiTurn\<close> are external drivers. Every call the
  controller makes to them, and every \<open>delay\<close>, is recorded in a history, oldest call
  first. What an encoder returns is a function of the history before the read, so the
  model covers every behaviour of the mechanics: nothing is assumed about how a step
  command moves a reading.
\<close>

datatype event =
    AzStep int          \<comment> \<open>\<open>az_stepper->step(n)\<close>\<close>
  | ElevStep int        \<comment> \<open>\<open>elev_stepper->step(n)\<close>\<close>
  | Delay nat           \<comment> \<open>\<open>delay(ms)\<close>\<close>
  | AzPosRead           \<comment> \<open>\<open>az_encoder->get_encoder_pos_value()\<close>\<close>
  | AzTurnRead          \<comment> \<open>\<open>az_encoder->get_turn_count()\<close>\<close>
  | ElevPosRead         \<comment> \<open>\<open>elev_encoder->get_encoder_pos_value()\<close>\<close>

record devices =
  az_encoder_pos :: "event list \<Rightarrow> int"
  az_encoder_turns :: "event list \<Rightarrow> int"
  elev_encoder_pos :: "event list \<Rightarrow> int"

record antenna =
  az_init_turn_count :: int
  history :: "event list"

definition az_stepper_step :: "int \<Rightarrow> antenna \<Rightarrow> antenna" where
  "az_stepper_step n a = a\<lparr>history := history a @ [AzStep n]\<rparr>"

definition elev_stepper_step :: "int \<Rightarrow> antenna \<Rightarrow> antenna" where
  "elev_stepper_step n a = a\<lparr>history := history a @ [ElevStep n]\<rparr>"

definition delay :: "nat \<Rightarrow> antenna \<Rightarrow> antenna" where
  "delay ms a = a\<lparr>history := history a @ [Delay ms]\<rparr>"

definition az_get_encoder_pos_value :: "devices \<Rightarrow> antenna \<Rightarrow> int \<times> antenna" where
  "az_get_encoder_pos_value dev a =
     (az_encoder_pos dev (history a), a\<lparr>history := history a @ [AzPosRead]\<rparr>)"

definition az_get_turn_count :: "devices \<Rightarrow> antenna \<Rightarrow> int \<times> antenna" where
  "az_get_turn_count dev a =
     (az_encoder_turns dev (history a), a\<lparr>history := history a @ [AzTurnRead]\<rparr>)"

definition elev_get_encoder_pos_value :: "devices \<Rightarrow> antenna \<Rightarrow> int \<times> antenna" where
  "elev_get_encoder_pos_value dev a =
     (elev_encoder_pos dev (history a), a\<lparr>history := history a @ [ElevPosRead]\<rparr>)"

subsection \<open>The operations of the class\<close>

definition point_to_after_loop ::
  "config \<Rightarrow> devices \<Rightarrow> real \<Rightarrow> real \<Rightarrow> antenna \<Rightarrow> antenna" where
  \<comment> \<open>lines 109-181: \<open>point_to\<close> from the end of its loop on, \<open>az_deg\<close> being the
      value the loop has left\<close>
  "point_to_after_loop cfg dev az_deg elev_deg a =
     (let az_target = az_target_encoder_val cfg az_deg;
          (az_current_encoder_val, a) = az_get_encoder_pos_value dev a;
          az_encoder_val_diff = take_shortest_path cfg (az_target - az_current_encoder_val);
          (az_current_turn_count, a) = az_get_turn_count dev a;
          az_pred = az_pred_diff_deg_since_init cfg (az_init_turn_count a)
                      az_current_turn_count az_current_encoder_val az_encoder_val_diff;
          a = (if az_pred > AZ_MAX_ROTATION_DEG cfg
               then az_stepper_step
                      (wrap_int (- AZ_MICRO_STEP_PER_TURN cfg * AZ_REDUC cfg)) a
               else a);
          a = (if az_pred < - AZ_MAX_ROTATION_DEG cfg
               then az_stepper_step
                      (wrap_int (AZ_MICRO_STEP_PER_TURN cfg * AZ_REDUC cfg)) a
               else a);
          a = az_stepper_step (az_step_to_turn cfg az_encoder_val_diff) a;
          elev_deg = elev_safety_check cfg elev_deg;
          elev_target = elev_target_encoder_val cfg elev_deg;
          (elev_current_encoder_val, a) = elev_get_encoder_pos_value dev a;
          elev_encoder_val_diff =
            take_shortest_path cfg (elev_target - elev_current_encoder_val)
      in elev_stepper_step (- elev_step_to_turn cfg elev_encoder_val_diff) a)"

definition point_to :: "config \<Rightarrow> devices \<Rightarrow> real \<Rightarrow> real \<Rightarrow> antenna \<Rightarrow> antenna option" where
  \<comment> \<open>the loop of line 107, then the rest; a call whose loop does not end returns
      nothing\<close>
  "point_to cfg dev az_deg elev_deg a =
     (case az_normalize az_deg of
        None \<Rightarrow> None
      | Some az_deg \<Rightarrow> Some (point_to_after_loop cfg dev az_deg elev_deg a))"

definition go_home :: "config \<Rightarrow> devices \<Rightarrow> antenna \<Rightarrow> antenna option" where
  "go_home cfg dev a =
     (let (az_current_turn_count, a) = az_get_turn_count dev a;
          a = az_stepper_step
                (wrap_int (wrap_int (wrap_int (az_current_turn_count - az_init_turn_count a)
                                     * AZ_MICRO_STEP_PER_TURN cfg)
                           * AZ_REDUC cfg)) a
      in point_to cfg dev 0 (90 - ELEV_ZENITH_SAFETY_MARGIN_DEG cfg) a)"

definition empty_water :: "config \<Rightarrow> devices \<Rightarrow> antenna \<Rightarrow> antenna option" where
  "empty_water cfg dev a =
     (case point_to cfg dev 0 60 a of
        None \<Rightarrow> None
      | Some a \<Rightarrow> go_home cfg dev (delay 3000 a))"

fun clean_spi_bus :: "nat \<Rightarrow> event list \<Rightarrow> event list" where
  \<comment> \<open>lines 57-62: the values read are discarded\<close>
  "clean_spi_bus 0 h = h"
| "clean_spi_bus (Suc i) h =
     clean_spi_bus i (h @ [AzPosRead, Delay 50, ElevPosRead, Delay 50])"

definition Antenna :: "devices \<Rightarrow> event list \<Rightarrow> antenna" where
  \<comment> \<open>the constructor, from the history \<open>h\<close> of the devices before it runs; creating
      the driver objects and opening the SPI bus leave no trace in the model\<close>
  "Antenna dev h =
     (let h = clean_spi_bus 10 h
      in \<lparr>az_init_turn_count = az_encoder_turns dev h, history = h @ [AzTurnRead]\<rparr>)"

subsection \<open>Reading a history\<close>

definition new_events :: "antenna \<Rightarrow> antenna \<Rightarrow> event list" where
  \<comment> \<open>what an operation that took \<open>a\<close> to \<open>a'\<close> added to the history\<close>
  "new_events a a' = drop (length (history a)) (history a')"

fun az_steps :: "event list \<Rightarrow> int list" where
  "az_steps [] = []"
| "az_steps (AzStep n # es) = n # az_steps es"
| "az_steps (_ # es) = az_steps es"


fun is_step :: "event \<Rightarrow> bool" where
  "is_step (AzStep _) = True"
| "is_step (ElevStep _) = True"
| "is_step _ = False"

subsection \<open>The predicted rotation as the design document words it\<close>

definition predicted_rotation_spec :: "int \<Rightarrow> int \<Rightarrow> int \<Rightarrow> int \<Rightarrow> int \<Rightarrow> real" where
  \<comment> \<open>\<open>(turn_count - init_turn_count + (current + diff)/encoder_max) * 360\<close>, the
      quotient being the fractional ratio; written from the document, to be compared
      with \<open>az_pred_diff_deg_since_init\<close>\<close>
  "predicted_rotation_spec encoder_max init_turn_count turn_count current diff =
     (real_of_int turn_count - real_of_int init_turn_count
      + real_of_int (current + diff) / real_of_int encoder_max) * 360"

subsection \<open>A concrete installation\<close>

definition test_config :: config where
  \<comment> \<open>a 12-bit encoder with north at 0, used to evaluate the operations\<close>
  "test_config =
     \<lparr>ENCODERS_MAX = 4096, AZ_NORTH_ENCODER_VAL = 0, AZ_MAX_ROTATION_DEG = 400,
      AZ_MICRO_STEP_PER_TURN = 3200, AZ_REDUC = 60, ELEV_ZENITH_SAFETY_MARGIN_DEG = 5,
      ELEV_ZENITH_ENCODER_VAL = 512, ELEV_MICRO_STEP_PER_TURN = 3200, ELEV_REDUC = 40\<rparr>"

definition turned_devices :: "int \<Rightarrow> devices" where
  \<comment> \<open>both encoders read position 0, the azimuth turn counter reads \<open>n\<close>\<close>
  "turned_devices n =
     \<lparr>az_encoder_pos = (\<lambda>h. 0), az_encoder_turns = (\<lambda>h. n), elev_encoder_pos = (\<lambda>h. 0)\<rparr>"

definition encoder_devices :: "int \<Rightarrow> int \<Rightarrow> devices" where
  \<comment> \<open>the azimuth encoder reads position \<open>pos\<close> and turn count \<open>n\<close>, the elevation
      encoder position 0\<close>
  "encoder_devices pos n =
     \<lparr>az_encoder_pos = (\<lambda>h. pos), az_encoder_turns = (\<lambda>h. n), elev_encoder_pos = (\<lambda>h. 0)\<rparr>"

definition fresh_antenna :: antenna where
  "fresh_antenna = \<lparr>az_init_turn_count = 0, history = []\<rparr>"

section \<open>Properties\<close>

subsection \<open>Arithmetic of the conversions\<close>

lemma c_div_nonneg: "0 \<le> a \<Longrightarrow> 0 < b \<Longrightarrow> c_div a b = a div b"
  by (simp add: c_div_def)

lemma c_mod_nonneg: "0 \<le> a \<Longrightarrow> 0 < b \<Longrightarrow> c_mod a b = a mod b"
  by (simp add: c_mod_def c_div_nonneg minus_div_mult_eq_mod)

lemma to_int_nonneg: "0 \<le> x \<Longrightarrow> to_int x = \<lfloor>x\<rfloor>"
  by (simp add: to_int_def)

lemma to_int_nonneg_le: "0 \<le> x \<Longrightarrow> 0 \<le> to_int x"
  unfolding to_int_def by (simp only: if_True zero_le_floor)

lemma to_int_minus: "to_int (- x) = - to_int x"
  by (auto simp add: to_int_def ceiling_minus floor_minus)

lemma wrap_int_fits: "fits_int x \<Longrightarrow> wrap_int x = x"
  unfolding fits_int_def wrap_int_def by (simp add: mod_pos_pos_trivial)

subsection \<open>Rounding\<close>


text \<open>The exponent that \<open>binade\<close> computes is the one of the enclosing power of 2.\<close>

lemma binade_bounds:
  assumes "x \<noteq> 0"
  shows "2 powi binade x \<le> \<bar>x\<bar> \<and> \<bar>x\<bar> < 2 powi (binade x + 1)"
proof (cases "1 \<le> \<bar>x\<bar>")
  case True
  define n where "n = \<lfloor>\<bar>x\<bar>\<rfloor>"
  define b where "b = bitlen n"
  have n1: "1 \<le> n" unfolding n_def using True by simp
  then have npos: "0 < n" by simp
  from bitlen_bounds [OF npos]
  have lo: "2 ^ nat (b - 1) \<le> n" and hi: "n < 2 ^ nat b" unfolding b_def by simp_all
  have b1: "1 \<le> b"
    using npos bitlen_eq_zero_iff [of n] bitlen_nonneg [of n] unfolding b_def by linarith
  have bin: "binade x = b - 1" using True unfolding binade_def b_def n_def by simp
  have "real_of_int n \<le> \<bar>x\<bar>" unfolding n_def by simp
  moreover have "(2::real) ^ nat (b - 1) \<le> real_of_int n"
    using lo by (metis of_int_le_iff of_int_numeral of_int_power)
  ultimately have "(2::real) ^ nat (b - 1) \<le> \<bar>x\<bar>" by linarith
  moreover have "(2::real) powi (b - 1) = 2 ^ nat (b - 1)"
    using b1 by (simp add: power_int_def)
  ultimately have low: "(2::real) powi (b - 1) \<le> \<bar>x\<bar>" by simp
  have "\<bar>x\<bar> < real_of_int (n + 1)" unfolding n_def by linarith
  moreover have "n + 1 \<le> 2 ^ nat b" using hi by simp
  then have "real_of_int (n + 1) \<le> (2::real) ^ nat b"
    by (metis of_int_le_iff of_int_numeral of_int_power)
  ultimately have "\<bar>x\<bar> < (2::real) ^ nat b" by linarith
  moreover have "(2::real) powi b = 2 ^ nat b"
    using b1 by (simp add: power_int_def)
  ultimately have "\<bar>x\<bar> < (2::real) powi b" by simp
  with low show ?thesis unfolding bin by simp
next
  case False
  define z where "z = 1 / \<bar>x\<bar>"
  define c where "c = \<lceil>z\<rceil>"
  define b where "b = bitlen (c - 1)"
  have xpos: "0 < \<bar>x\<bar>" using assms by simp
  have z1: "1 < z" unfolding z_def using False xpos by simp
  then have c2: "2 \<le> c" unfolding c_def by linarith
  then have cpos: "0 < c - 1" by simp
  from bitlen_bounds [OF cpos]
  have lo: "2 ^ nat (b - 1) \<le> c - 1" and hi: "c - 1 < 2 ^ nat b" unfolding b_def by simp_all
  have b1: "1 \<le> b"
    using cpos bitlen_eq_zero_iff [of "c - 1"] bitlen_nonneg [of "c - 1"]
    unfolding b_def by linarith
  have bin: "binade x = - b" using False unfolding binade_def b_def c_def z_def by simp
  have x_eq: "\<bar>x\<bar> = 1 / z" unfolding z_def by simp
  have zpos: "0 < z" using z1 by simp
  have "c \<le> 2 ^ nat b" using hi by simp
  then have "real_of_int c \<le> (2::real) ^ nat b"
    by (metis of_int_le_iff of_int_numeral of_int_power)
  moreover have "z \<le> real_of_int c" unfolding c_def by simp
  ultimately have "z \<le> 2 ^ nat b" by linarith
  then have "1 / 2 ^ nat b \<le> 1 / z" using zpos by (simp add: frac_le)
  moreover have "(2::real) powi (- b) = 1 / 2 ^ nat b"
  proof -
    have "- b = - int (nat b)" using b1 by simp
    then have "(2::real) powi (- b) = 2 powi (- int (nat b))" by simp
    also have "\<dots> = 1 / 2 ^ nat b"
      by (simp only: power_int_minus_divide power_int_of_nat)
    finally show ?thesis .
  qed
  ultimately have low: "(2::real) powi (- b) \<le> \<bar>x\<bar>"
    unfolding x_eq by simp
  have "(2::real) ^ nat (b - 1) \<le> real_of_int (c - 1)"
    using lo by (metis of_int_le_iff of_int_numeral of_int_power)
  moreover have "real_of_int (c - 1) < z" unfolding c_def by linarith
  ultimately have "(2::real) ^ nat (b - 1) < z" by linarith
  then have "1 / z < 1 / 2 ^ nat (b - 1)" by (simp add: frac_less2)
  moreover have "(2::real) powi (- b + 1) = 1 / 2 ^ nat (b - 1)"
  proof -
    have "- b + 1 = - int (nat (b - 1))" using b1 by simp
    then have "(2::real) powi (- b + 1) = 2 powi (- int (nat (b - 1)))" by simp
    also have "\<dots> = 1 / 2 ^ nat (b - 1)"
      by (simp only: power_int_minus_divide power_int_of_nat)
    finally show ?thesis .
  qed
  ultimately have "\<bar>x\<bar> < 2 powi (- b + 1)" unfolding x_eq by simp
  with low show ?thesis unfolding bin by simp
qed







subsection \<open>The loop of line 107\<close>

lemma az_normalize_nonneg: "0 \<le> az_deg \<Longrightarrow> az_normalize az_deg = Some az_deg"
  by (subst az_normalize.simps) simp








subsection \<open>Histories\<close>

lemmas device_defs =
  az_stepper_step_def elev_stepper_step_def delay_def
  az_get_encoder_pos_value_def az_get_turn_count_def elev_get_encoder_pos_value_def

lemma az_steps_append: "az_steps (xs @ ys) = az_steps xs @ az_steps ys"
  by (induction xs rule: az_steps.induct) simp_all


lemma new_events_append:
  "history a' = history a @ es \<Longrightarrow> new_events a a' = es"
  by (simp add: new_events_def)

text \<open>
  Everything \<open>point_to\<close> does to the devices once its loop has ended, in order: the
  azimuth position read, the turn count read, the untangling turns if any, the azimuth
  move, the elevation position read and the elevation move.
\<close>

lemma point_to_after_loop_history:
  "history (point_to_after_loop cfg dev az_deg elev_deg a) =
     (let cur = az_encoder_pos dev (history a);
          diff = take_shortest_path cfg (az_target_encoder_val cfg az_deg - cur);
          turns = az_encoder_turns dev (history a @ [AzPosRead]);
          pred = az_pred_diff_deg_since_init cfg (az_init_turn_count a) turns cur diff;
          untangle =
            (if pred > AZ_MAX_ROTATION_DEG cfg
             then [AzStep (wrap_int (- AZ_MICRO_STEP_PER_TURN cfg * AZ_REDUC cfg))] else [])
            @ (if pred < - AZ_MAX_ROTATION_DEG cfg
               then [AzStep (wrap_int (AZ_MICRO_STEP_PER_TURN cfg * AZ_REDUC cfg))] else []);
          h = history a @ [AzPosRead, AzTurnRead] @ untangle
                @ [AzStep (az_step_to_turn cfg diff)];
          elev_diff = take_shortest_path cfg
            (elev_target_encoder_val cfg (elev_safety_check cfg elev_deg)
             - elev_encoder_pos dev h)
      in h @ [ElevPosRead, ElevStep (- elev_step_to_turn cfg elev_diff)])"
  by (simp add: point_to_after_loop_def device_defs Let_def)

lemma point_to_after_loop_extends:
  "history (point_to_after_loop cfg dev az_deg elev_deg a)
     = history a @ new_events a (point_to_after_loop cfg dev az_deg elev_deg a)"
  by (simp add: new_events_def point_to_after_loop_history Let_def)

lemma point_to_after_loop_init_turn_count:
  "az_init_turn_count (point_to_after_loop cfg dev az_deg elev_deg a) = az_init_turn_count a"
  by (simp add: point_to_after_loop_def device_defs Let_def)

text \<open>A call of \<open>point_to\<close> with an azimuth that is not negative returns.\<close>

lemma point_to_returns:
  "0 \<le> az_deg \<Longrightarrow>
     point_to cfg dev az_deg elev_deg a = Some (point_to_after_loop cfg dev az_deg elev_deg a)"
  by (simp add: point_to_def az_normalize_nonneg)

lemma point_to_returned:
  assumes "point_to cfg dev az_deg elev_deg a = Some a'"
  obtains az where "az_normalize az_deg = Some az"
    and "a' = point_to_after_loop cfg dev az elev_deg a"
  using assms unfolding point_to_def by (cases "az_normalize az_deg") auto

lemma point_to_init_turn_count:
  "point_to cfg dev az_deg elev_deg a = Some a' \<Longrightarrow> az_init_turn_count a' = az_init_turn_count a"
  by (erule point_to_returned) (simp add: point_to_after_loop_init_turn_count)

lemma point_to_extends:
  "point_to cfg dev az_deg elev_deg a = Some a' \<Longrightarrow> history a' = history a @ new_events a a'"
  by (erule point_to_returned) (simp only: point_to_after_loop_extends)

text \<open>\<open>go_home\<close> calls \<open>point_to\<close> with azimuth 0, so it returns.\<close>

lemma go_home_returns:
  "go_home cfg dev a =
     Some (point_to_after_loop cfg dev 0 (90 - ELEV_ZENITH_SAFETY_MARGIN_DEG cfg)
       (a\<lparr>history := history a @
          [AzTurnRead,
           AzStep (wrap_int (wrap_int (wrap_int
                     (az_encoder_turns dev (history a) - az_init_turn_count a)
                     * AZ_MICRO_STEP_PER_TURN cfg) * AZ_REDUC cfg))]\<rparr>))"
  by (simp add: go_home_def device_defs Let_def point_to_returns)

lemma go_home_init_turn_count:
  "go_home cfg dev a = Some a' \<Longrightarrow> az_init_turn_count a' = az_init_turn_count a"
  by (auto simp add: go_home_returns point_to_after_loop_init_turn_count)

lemma empty_water_unfolded:
  "empty_water cfg dev a = go_home cfg dev (delay 3000 (point_to_after_loop cfg dev 0 60 a))"
  by (simp add: empty_water_def point_to_returns)

lemma empty_water_init_turn_count:
  "empty_water cfg dev a = Some a' \<Longrightarrow> az_init_turn_count a' = az_init_turn_count a"
  unfolding empty_water_unfolded
  by (drule go_home_init_turn_count)
     (simp add: delay_def point_to_after_loop_init_turn_count)

lemma clean_spi_bus_history:
  "clean_spi_bus n h = h @ concat (replicate n [AzPosRead, Delay 50, ElevPosRead, Delay 50])"
  by (induction n arbitrary: h) simp_all

subsection \<open>Cable-wrap protection\<close>

text \<open>
  What the code does: with a limit that is not negative, the azimuth commands after the
  loop are one full turn in the negative direction and the main move when the value
  \<open>az_pred_diff_deg_since_init\<close> of line 132 is above the limit, one full turn in the
  positive direction and the main move when it is below minus the limit, and the main
  move alone otherwise.
\<close>

lemma point_to_untangle_commands:
  assumes "0 \<le> AZ_MAX_ROTATION_DEG cfg"
  shows "az_steps (new_events a (point_to_after_loop cfg dev az_deg elev_deg a)) =
     (let cur = az_encoder_pos dev (history a);
          diff = take_shortest_path cfg (az_target_encoder_val cfg az_deg - cur);
          turns = az_encoder_turns dev (history a @ [AzPosRead]);
          pred = az_pred_diff_deg_since_init cfg (az_init_turn_count a) turns cur diff
      in if pred > AZ_MAX_ROTATION_DEG cfg
         then [wrap_int (- AZ_MICRO_STEP_PER_TURN cfg * AZ_REDUC cfg), az_step_to_turn cfg diff]
         else if pred < - AZ_MAX_ROTATION_DEG cfg
         then [wrap_int (AZ_MICRO_STEP_PER_TURN cfg * AZ_REDUC cfg), az_step_to_turn cfg diff]
         else [az_step_to_turn cfg diff])"
  using assms by (simp add: new_events_def point_to_after_loop_history Let_def)

text \<open>
  C1. The predicted cumulative rotation is \<open>(turn_count - init_turn_count + (current +
  diff)/encoder_max) * 360\<close>, and line 132 computes another value (see C2), so the
  commands do not follow the prediction. On a 4096-count encoder with a limit of 400
  degrees: one turn after start-up, at position 0, \<open>point_to(90, 0)\<close> has a predicted
  rotation of 450 degrees and commands the main move of 48000 microsteps alone; two turns
  before start-up, at position 3686, \<open>point_to(324, 0)\<close> has a predicted rotation within
  the limit and commands a full positive turn of 192000 microsteps before a main move
  of 0.
\<close>

theorem point_to_untangling_misses_prediction:
  "AZ_MAX_ROTATION_DEG test_config = 400
   \<and> take_shortest_path test_config (az_target_encoder_val test_config 90 - 0) = 1024
   \<and> predicted_rotation_spec (ENCODERS_MAX test_config) 0 1 0 1024 = 450
   \<and> map_option (\<lambda>a'. az_steps (new_events fresh_antenna a'))
        (point_to test_config (encoder_devices 0 1) 90 0 fresh_antenna) = Some [48000]
   \<and> take_shortest_path test_config (az_target_encoder_val test_config 324 - 3686) = 0
   \<and> \<bar>predicted_rotation_spec (ENCODERS_MAX test_config) 0 (- 2) 3686 0\<bar> \<le> 400
   \<and> map_option (\<lambda>a'. az_steps (new_events fresh_antenna a'))
        (point_to test_config (encoder_devices 3686 (- 2)) 324 0 fresh_antenna)
       = Some [192000, 0]"
proof -
  have target_90: "az_target_encoder_val test_config 90 = 1024"
    by (simp add: az_target_encoder_val_def test_config_def to_int_def c_mod_def c_div_def)
  have target_324: "az_target_encoder_val test_config 324 = 3686"
    by (simp add: az_target_encoder_val_def test_config_def to_int_def c_mod_def c_div_def)
  have diff_90: "take_shortest_path test_config 1024 = 1024"
    by (simp add: take_shortest_path_def test_config_def c_div_def)
  have diff_324: "take_shortest_path test_config 0 = 0"
    by (simp add: take_shortest_path_def test_config_def c_div_def)
  have path_90:
    "take_shortest_path test_config (az_target_encoder_val test_config 90 - 0) = 1024"
    by (simp add: target_90 diff_90)
  have path_324:
    "take_shortest_path test_config (az_target_encoder_val test_config 324 - 3686) = 0"
    by (simp add: target_324 diff_324)
  have spec_90: "predicted_rotation_spec (ENCODERS_MAX test_config) 0 1 0 1024 = 450"
    by (simp add: predicted_rotation_spec_def test_config_def)
  have spec_324: "\<bar>predicted_rotation_spec (ENCODERS_MAX test_config) 0 (- 2) 3686 0\<bar> \<le> 400"
    by (simp add: predicted_rotation_spec_def test_config_def)
  have limit: "AZ_MAX_ROTATION_DEG test_config = 400"
    by (simp add: test_config_def)
  have main_90: "az_step_to_turn test_config 1024 = 48000"
    by (simp add: az_step_to_turn_def test_config_def to_int_def)
  have main_324: "az_step_to_turn test_config 0 = 0"
    by (simp add: az_step_to_turn_def test_config_def to_int_def)
  have full: "wrap_int (AZ_MICRO_STEP_PER_TURN test_config * AZ_REDUC test_config) = 192000"
    by (simp add: wrap_int_def test_config_def)
  have pred_90: "az_pred_diff_deg_since_init test_config 0 1 0 1024 = 360"
    by (simp add: az_pred_diff_deg_since_init_def test_config_def c_div_def)
  have pred_324: "az_pred_diff_deg_since_init test_config 0 (- 2) 3686 0 = - 720"
    by (simp add: az_pred_diff_deg_since_init_def test_config_def c_div_def)
  have "point_to test_config (encoder_devices 0 1) 90 0 fresh_antenna
      = Some (point_to_after_loop test_config (encoder_devices 0 1) 90 0 fresh_antenna)"
    by (rule point_to_returns) simp
  moreover
  have "az_steps (new_events fresh_antenna
          (point_to_after_loop test_config (encoder_devices 0 1) 90 0 fresh_antenna))
        = [48000]"
    by (simp add: point_to_untangle_commands limit Let_def encoder_devices_def
        fresh_antenna_def target_90 diff_90 pred_90 main_90)
  ultimately have first: "map_option (\<lambda>a'. az_steps (new_events fresh_antenna a'))
        (point_to test_config (encoder_devices 0 1) 90 0 fresh_antenna) = Some [48000]"
    by simp
  have "point_to test_config (encoder_devices 3686 (- 2)) 324 0 fresh_antenna
      = Some (point_to_after_loop test_config (encoder_devices 3686 (- 2)) 324 0 fresh_antenna)"
    by (rule point_to_returns) simp
  moreover
  have "az_steps (new_events fresh_antenna
          (point_to_after_loop test_config (encoder_devices 3686 (- 2)) 324 0 fresh_antenna))
        = [192000, 0]"
    by (simp add: point_to_untangle_commands limit Let_def encoder_devices_def
        fresh_antenna_def target_324 diff_324 pred_324 main_324 full)
  ultimately have second: "map_option (\<lambda>a'. az_steps (new_events fresh_antenna a'))
        (point_to test_config (encoder_devices 3686 (- 2)) 324 0 fresh_antenna)
       = Some [192000, 0]"
    by simp
  from limit path_90 spec_90 first path_324 spec_324 second show ?thesis
    by blast
qed

subsection \<open>Shortest path\<close>

text \<open>
  C3. For a target and a current encoder value in \<open>[0, ENCODERS_MAX)\<close>, the difference
  after the shortest-path statement of \<open>point_to\<close> (azimuth and elevation use the same
  statement) is at most \<open>ENCODERS_MAX/2\<close> in absolute value, and moving by it from the
  current value reaches the target modulo \<open>ENCODERS_MAX\<close>.
\<close>

theorem shortest_path_bounded_and_reaches_target:
  assumes "0 \<le> target" "target < ENCODERS_MAX cfg"
    and "0 \<le> current" "current < ENCODERS_MAX cfg"
  shows "\<bar>take_shortest_path cfg (target - current)\<bar> \<le> ENCODERS_MAX cfg div 2
       \<and> (current + take_shortest_path cfg (target - current)) mod ENCODERS_MAX cfg = target"
proof -
  let ?m = "ENCODERS_MAX cfg"
  let ?d = "target - current"
  have pos: "0 < ?m" using assms by linarith
  have half: "c_div ?m 2 = ?m div 2" using pos by (simp add: c_div_nonneg)
  have bound: "\<bar>take_shortest_path cfg ?d\<bar> \<le> ?m div 2"
    using assms unfolding take_shortest_path_def half by (auto split: if_splits)
  have "current + take_shortest_path cfg ?d = target
      \<or> current + take_shortest_path cfg ?d = target + ?m
      \<or> current + take_shortest_path cfg ?d = target - ?m"
    unfolding take_shortest_path_def by auto
  then have "(current + take_shortest_path cfg ?d) mod ?m = target mod ?m"
    by (elim disjE) simp_all
  also have "target mod ?m = target" using assms by simp
  finally show ?thesis using bound by simp
qed

theorem shortest_path_bounded_and_reaches_target_witness:
  "(0::int) \<le> 3982 \<and> 3982 < ENCODERS_MAX test_config
   \<and> (0::int) \<le> 0 \<and> 0 < ENCODERS_MAX test_config
   \<and> take_shortest_path test_config (3982 - 0) = - 114
   \<and> \<bar>take_shortest_path test_config (3982 - 0)\<bar> \<le> ENCODERS_MAX test_config div 2
   \<and> (0 + take_shortest_path test_config (3982 - 0)) mod ENCODERS_MAX test_config = 3982"
  using shortest_path_bounded_and_reaches_target
    [where cfg = test_config and target = 3982 and current = 0]
  by (simp add: test_config_def take_shortest_path_def c_div_def)

subsection \<open>The predicted rotation\<close>

text \<open>
  Whenever the position after the move is less than one turn away from 0, the quotient
  of line 132 is 0 and the prediction is a whole number of turns.
\<close>

lemma az_pred_diff_whole_turns:
  assumes "\<bar>az_current_encoder_val + az_encoder_val_diff\<bar> < ENCODERS_MAX cfg"
  shows "az_pred_diff_deg_since_init cfg init_turn_count az_current_turn_count
           az_current_encoder_val az_encoder_val_diff
         = real_of_int (az_current_turn_count - init_turn_count) * 360"
proof -
  have "\<bar>az_current_encoder_val + az_encoder_val_diff\<bar> div \<bar>ENCODERS_MAX cfg\<bar> = 0"
    using assms by (simp add: div_pos_pos_trivial)
  then have "c_div (az_current_encoder_val + az_encoder_val_diff) (ENCODERS_MAX cfg) = 0"
    by (simp add: c_div_def)
  then show ?thesis by (simp add: az_pred_diff_deg_since_init_def)
qed

text \<open>
  C2. Line 132 divides the \<open>int\<close> sum \<open>az_current_encoder_val + az_encoder_val_diff\<close>
  by the integral constant \<open>ENCODERS_MAX\<close> before anything is converted to \<open>float\<close>, so
  the fraction of a turn is discarded (line 141 converts first: \<open>(float)az_encoder_val_diff
  / ENCODERS_MAX\<close>). One turn after start-up, at encoder position 0 and asked for 90
  degrees on a 4096-count encoder, the code predicts 360 degrees where the fractional
  formula gives 450; with a limit of 400 degrees no untangling turn is commanded.
\<close>

theorem az_pred_diff_drops_fraction_of_turn:
  "az_encoder_pos (turned_devices 1) (history fresh_antenna) = 0
   \<and> az_encoder_turns (turned_devices 1) (history fresh_antenna @ [AzPosRead]) = 1
   \<and> az_normalize 90 = Some 90
   \<and> take_shortest_path test_config (az_target_encoder_val test_config 90 - 0) = 1024
   \<and> az_pred_diff_deg_since_init test_config 0 1 0 1024 = 360
   \<and> predicted_rotation_spec (ENCODERS_MAX test_config) 0 1 0 1024 = 450
   \<and> AZ_MAX_ROTATION_DEG test_config = 400
   \<and> map_option (\<lambda>a'. az_steps (new_events fresh_antenna a'))
        (point_to test_config (turned_devices 1) 90 0 fresh_antenna)
       = Some [az_step_to_turn test_config 1024]"
  by (simp add: point_to_returns new_events_def point_to_after_loop_history Let_def
      test_config_def turned_devices_def fresh_antenna_def az_normalize_nonneg
      az_target_encoder_val_def take_shortest_path_def az_pred_diff_deg_since_init_def
      predicted_rotation_spec_def to_int_def c_mod_def c_div_def)

subsection \<open>Normalising the azimuth\<close>




text \<open>
  What the loop leaves at or above 360 is for \<open>% ENCODERS_MAX\<close> on line 109: with a north
  reference that is not negative, and as long as the value converted by \<open>(int)\<close> is a
  value of \<open>int\<close>, a full turn more in the request gives the same target.
\<close>

lemma az_target_full_turn:
  assumes "0 < ENCODERS_MAX cfg" "0 \<le> AZ_NORTH_ENCODER_VAL cfg" "0 \<le> az_deg"
    and "(az_deg + 360) / 360 * real_of_int (ENCODERS_MAX cfg)
           + real_of_int (AZ_NORTH_ENCODER_VAL cfg) < 2 ^ 31"
  shows "az_target_encoder_val cfg (az_deg + 360) = az_target_encoder_val cfg az_deg"
proof -
  define x where "x = az_deg / 360 * real_of_int (ENCODERS_MAX cfg)
                  + real_of_int (AZ_NORTH_ENCODER_VAL cfg)"
  have x0: "0 \<le> x" unfolding x_def using assms(1-3) by simp
  have shift: "(az_deg + 360) / 360 * real_of_int (ENCODERS_MAX cfg)
                  + real_of_int (AZ_NORTH_ENCODER_VAL cfg) = x + real_of_int (ENCODERS_MAX cfg)"
    unfolding x_def by (simp add: field_simps)
  have x1: "0 \<le> x + real_of_int (ENCODERS_MAX cfg)" using x0 assms(1) by simp
  have "to_int (x + real_of_int (ENCODERS_MAX cfg)) = to_int x + ENCODERS_MAX cfg"
    using x0 x1 by (simp add: to_int_nonneg)
  moreover have "0 \<le> to_int x" using x0 by (rule to_int_nonneg_le)
  ultimately show ?thesis
    using assms(1) unfolding az_target_encoder_val_def shift x_def [symmetric]
    by (simp add: c_mod_nonneg)
qed

subsection \<open>Going home\<close>

text \<open>
  Line 83 multiplies in \<open>int\<close>. At a turn difference of 12000 with 3200 microsteps and a
  reduction of 60 the product leaves the range of \<open>int\<close>, and the command is not the
  product.
\<close>

lemma go_home_unwind_overflows:
  "map_option (\<lambda>a'. take 2 (new_events fresh_antenna a'))
     (go_home test_config (turned_devices 12000) fresh_antenna)
   = Some [AzTurnRead, AzStep (- 1990967296)]
   \<and> (12000 - 0) * AZ_MICRO_STEP_PER_TURN test_config * AZ_REDUC test_config = 2304000000"
  by (simp add: go_home_returns new_events_def point_to_after_loop_history Let_def
      test_config_def turned_devices_def fresh_antenna_def wrap_int_def)

text \<open>
  C5. As long as the turn difference, its product with \<open>AZ_MICRO_STEP_PER_TURN\<close> and
  the product of that with \<open>AZ_REDUC\<close> are values of \<open>int\<close>, \<open>go_home\<close> reads the turn
  counter and first commands the azimuth stepper by
  \<open>(az_current_turn_count - az_init_turn_count) * AZ_MICRO_STEP_PER_TURN * AZ_REDUC\<close>
  microsteps, with no shortest-path statement in between; the rest of \<open>go_home\<close> is
  \<open>point_to(0, 90 - ELEV_ZENITH_SAFETY_MARGIN_DEG)\<close>, which returns. The unwinding count
  is the same whatever the two position encoders return.
\<close>

theorem go_home_unwinds_then_parks:
  assumes "fits_int (az_encoder_turns dev (history a) - az_init_turn_count a)"
    and "fits_int ((az_encoder_turns dev (history a) - az_init_turn_count a)
                   * AZ_MICRO_STEP_PER_TURN cfg)"
    and "fits_int ((az_encoder_turns dev (history a) - az_init_turn_count a)
                   * AZ_MICRO_STEP_PER_TURN cfg * AZ_REDUC cfg)"
  shows
  "let turns = az_encoder_turns dev (history a);
       unwind = (turns - az_init_turn_count a) * AZ_MICRO_STEP_PER_TURN cfg * AZ_REDUC cfg;
       a' = a\<lparr>history := history a @ [AzTurnRead, AzStep unwind]\<rparr>;
       park = point_to cfg dev 0 (90 - ELEV_ZENITH_SAFETY_MARGIN_DEG cfg) a'
   in go_home cfg dev a = park
    \<and> (\<exists>b. park = Some b
          \<and> history b = history a @ [AzTurnRead, AzStep unwind] @ new_events a' b)
    \<and> map_option (\<lambda>b. take 2 (new_events a b))
          (go_home cfg (dev\<lparr>az_encoder_pos := az_pos, elev_encoder_pos := elev_pos\<rparr>) a)
        = Some [AzTurnRead, AzStep unwind]"
proof -
  define unwind where
    "unwind = (az_encoder_turns dev (history a) - az_init_turn_count a)
              * AZ_MICRO_STEP_PER_TURN cfg * AZ_REDUC cfg"
  define a' where "a' = a\<lparr>history := history a @ [AzTurnRead, AzStep unwind]\<rparr>"
  define top where "top = 90 - ELEV_ZENITH_SAFETY_MARGIN_DEG cfg"
  have exact: "wrap_int (wrap_int (wrap_int
                  (az_encoder_turns dev (history a) - az_init_turn_count a)
                  * AZ_MICRO_STEP_PER_TURN cfg) * AZ_REDUC cfg) = unwind"
    unfolding unwind_def by (simp only: wrap_int_fits assms)
  have split: "go_home cfg d a = Some (point_to_after_loop cfg d 0 top a')"
    if "az_encoder_turns d = az_encoder_turns dev" for d
    unfolding go_home_returns that exact a'_def top_def ..
  have park: "point_to cfg d 0 top a' = Some (point_to_after_loop cfg d 0 top a')" for d
    by (rule point_to_returns) simp
  have hist: "history (point_to_after_loop cfg d 0 top a')
        = history a @ [AzTurnRead, AzStep unwind]
            @ new_events a' (point_to_after_loop cfg d 0 top a')"
    for d
    using point_to_after_loop_extends [of cfg d 0 top a'] by (simp add: a'_def)
  let ?dev = "dev\<lparr>az_encoder_pos := az_pos, elev_encoder_pos := elev_pos\<rparr>"
  have other: "go_home cfg ?dev a = Some (point_to_after_loop cfg ?dev 0 top a')"
    by (rule split) simp
  have "new_events a (point_to_after_loop cfg ?dev 0 top a')
        = [AzTurnRead, AzStep unwind]
            @ new_events a' (point_to_after_loop cfg ?dev 0 top a')"
    using hist [of ?dev] by (rule new_events_append)
  then have "take 2 (new_events a (point_to_after_loop cfg ?dev 0 top a'))
        = [AzTurnRead, AzStep unwind]"
    by simp
  then have first: "map_option (\<lambda>b. take 2 (new_events a b)) (go_home cfg ?dev a)
        = Some [AzTurnRead, AzStep unwind]"
    unfolding other by simp
  have home: "go_home cfg dev a = point_to cfg dev 0 top a'"
    unfolding park by (rule split) simp
  have "\<exists>b. point_to cfg dev 0 top a' = Some b
          \<and> history b = history a @ [AzTurnRead, AzStep unwind] @ new_events a' b"
    unfolding park using hist [of dev] by blast
  with home first show ?thesis
    unfolding Let_def a'_def unwind_def top_def by blast
qed

theorem go_home_unwinds_then_parks_witness:
  "fits_int (az_encoder_turns (turned_devices 2) (history fresh_antenna)
             - az_init_turn_count fresh_antenna)
   \<and> fits_int ((az_encoder_turns (turned_devices 2) (history fresh_antenna)
                - az_init_turn_count fresh_antenna) * AZ_MICRO_STEP_PER_TURN test_config)
   \<and> fits_int ((az_encoder_turns (turned_devices 2) (history fresh_antenna)
                - az_init_turn_count fresh_antenna) * AZ_MICRO_STEP_PER_TURN test_config
               * AZ_REDUC test_config)
   \<and> map_option (\<lambda>b. take 2 (new_events fresh_antenna b))
        (go_home test_config (turned_devices 2) fresh_antenna)
       = Some [AzTurnRead, AzStep 384000]"
proof -
  have 1: "fits_int (az_encoder_turns (turned_devices 2) (history fresh_antenna)
             - az_init_turn_count fresh_antenna)"
    by (simp add: fits_int_def turned_devices_def fresh_antenna_def)
  have 2: "fits_int ((az_encoder_turns (turned_devices 2) (history fresh_antenna)
                - az_init_turn_count fresh_antenna) * AZ_MICRO_STEP_PER_TURN test_config)"
    by (simp add: fits_int_def turned_devices_def fresh_antenna_def test_config_def)
  have 3: "fits_int ((az_encoder_turns (turned_devices 2) (history fresh_antenna)
                - az_init_turn_count fresh_antenna) * AZ_MICRO_STEP_PER_TURN test_config
               * AZ_REDUC test_config)"
    by (simp add: fits_int_def turned_devices_def fresh_antenna_def test_config_def)
  have same: "turned_devices 2\<lparr>az_encoder_pos := (\<lambda>h. 0), elev_encoder_pos := (\<lambda>h. 0)\<rparr>
                = turned_devices 2"
    by (simp add: turned_devices_def)
  have count: "(az_encoder_turns (turned_devices 2) (history fresh_antenna)
                - az_init_turn_count fresh_antenna) * AZ_MICRO_STEP_PER_TURN test_config
               * AZ_REDUC test_config = 384000"
    by (simp add: turned_devices_def fresh_antenna_def test_config_def)
  from go_home_unwinds_then_parks [OF 1 2 3, where az_pos = "\<lambda>h. 0" and elev_pos = "\<lambda>h. 0"]
  have "map_option (\<lambda>b. take 2 (new_events fresh_antenna b))
        (go_home test_config
           (turned_devices 2\<lparr>az_encoder_pos := (\<lambda>h. 0), elev_encoder_pos := (\<lambda>h. 0)\<rparr>)
           fresh_antenna)
       = Some [AzTurnRead, AzStep 384000]"
    unfolding Let_def count by blast
  then have "map_option (\<lambda>b. take 2 (new_events fresh_antenna b))
        (go_home test_config (turned_devices 2) fresh_antenna)
       = Some [AzTurnRead, AzStep 384000]"
    unfolding same .
  with 1 2 3 show ?thesis by blast
qed

subsection \<open>Elevation\<close>

lemma elev_safety_check_idem:
  "elev_safety_check cfg (elev_safety_check cfg elev_deg) = elev_safety_check cfg elev_deg"
  by (simp add: elev_safety_check_def Let_def)


lemma point_to_after_loop_uses_checked_elevation:
  "point_to_after_loop cfg dev az_deg (elev_safety_check cfg elev_deg) a
     = point_to_after_loop cfg dev az_deg elev_deg a"
  by (simp add: point_to_after_loop_def elev_safety_check_idem)

lemma point_to_uses_checked_elevation:
  "point_to cfg dev az_deg (elev_safety_check cfg elev_deg) a
     = point_to cfg dev az_deg elev_deg a"
  by (simp add: point_to_def point_to_after_loop_uses_checked_elevation split: option.split)

text \<open>
  C6. With a safety margin of at most 90 degrees, so that \<open>[0, 90 - margin]\<close> is an
  interval, \<open>point_to\<close> replaces a requested elevation above \<open>90 - margin\<close> by
  \<open>90 - margin\<close> and one below 0 by 0, the call then being the call with the replaced
  angle, and uses an elevation inside the interval as it is.
\<close>

theorem point_to_elevation_clamped:
  assumes "ELEV_ZENITH_SAFETY_MARGIN_DEG cfg \<le> 90"
  shows "(elev_deg > 90 - ELEV_ZENITH_SAFETY_MARGIN_DEG cfg \<longrightarrow>
            elev_safety_check cfg elev_deg = 90 - ELEV_ZENITH_SAFETY_MARGIN_DEG cfg
            \<and> point_to cfg dev az_deg elev_deg a
                = point_to cfg dev az_deg (90 - ELEV_ZENITH_SAFETY_MARGIN_DEG cfg) a)
       \<and> (elev_deg < 0 \<longrightarrow>
            elev_safety_check cfg elev_deg = 0
            \<and> point_to cfg dev az_deg elev_deg a = point_to cfg dev az_deg 0 a)
       \<and> (0 \<le> elev_deg \<and> elev_deg \<le> 90 - ELEV_ZENITH_SAFETY_MARGIN_DEG cfg \<longrightarrow>
            elev_safety_check cfg elev_deg = elev_deg)"
proof -
  let ?top = "90 - ELEV_ZENITH_SAFETY_MARGIN_DEG cfg"
  have above: "elev_deg > ?top \<Longrightarrow> elev_safety_check cfg elev_deg = ?top"
    using assms by (simp add: elev_safety_check_def Let_def)
  have below: "elev_deg < 0 \<Longrightarrow> elev_safety_check cfg elev_deg = 0"
    using assms by (simp add: elev_safety_check_def Let_def)
  have inside: "0 \<le> elev_deg \<Longrightarrow> elev_deg \<le> ?top \<Longrightarrow> elev_safety_check cfg elev_deg = elev_deg"
    by (simp add: elev_safety_check_def Let_def)
  have "elev_deg > ?top \<Longrightarrow>
      point_to cfg dev az_deg elev_deg a = point_to cfg dev az_deg ?top a"
    using point_to_uses_checked_elevation [of cfg dev az_deg elev_deg a] above by simp
  moreover
  have "elev_deg < 0 \<Longrightarrow> point_to cfg dev az_deg elev_deg a = point_to cfg dev az_deg 0 a"
    using point_to_uses_checked_elevation [of cfg dev az_deg elev_deg a] below by simp
  ultimately show ?thesis using above below inside by blast
qed

theorem point_to_elevation_clamped_witness:
  "ELEV_ZENITH_SAFETY_MARGIN_DEG test_config \<le> 90
   \<and> (100::real) > 90 - ELEV_ZENITH_SAFETY_MARGIN_DEG test_config
   \<and> elev_safety_check test_config 100 = 85
   \<and> (- 5 :: real) < 0 \<and> elev_safety_check test_config (- 5) = 0
   \<and> (0::real) \<le> 45 \<and> 45 \<le> 90 - ELEV_ZENITH_SAFETY_MARGIN_DEG test_config
   \<and> elev_safety_check test_config 45 = 45"
  using point_to_elevation_clamped [where cfg = test_config and elev_deg = 100]
    point_to_elevation_clamped [where cfg = test_config and elev_deg = "- 5"]
    point_to_elevation_clamped [where cfg = test_config and elev_deg = 45]
  by (simp add: test_config_def)





subsection \<open>Emptying the dish\<close>

text \<open>
  C8. \<open>empty_water\<close> is \<open>point_to(0, 60)\<close>, then \<open>delay(3000)\<close>, then the two parts of
  \<open>go_home\<close>: the unwinding command to the azimuth stepper (after its turn count read)
  and \<open>point_to(0, 90 - ELEV_ZENITH_SAFETY_MARGIN_DEG)\<close>; both calls of \<open>point_to\<close>
  return, and so does \<open>empty_water\<close>. Its history is the history of the first
  \<open>point_to\<close>, the three calls \<open>Delay 3000\<close>, \<open>AzTurnRead\<close>, \<open>AzStep unwind\<close> of which
  only the last drives a stepper, and what the second \<open>point_to\<close> adds; neither
  \<open>point_to\<close> holds for 3 seconds.
\<close>

theorem empty_water_sequence:
  "let a1 = point_to_after_loop cfg dev 0 60 a;
       turns = az_encoder_turns dev (history a1 @ [Delay 3000]);
       unwind = wrap_int (wrap_int (wrap_int (turns - az_init_turn_count a)
                            * AZ_MICRO_STEP_PER_TURN cfg) * AZ_REDUC cfg);
       a2 = a1\<lparr>history := history a1 @ [Delay 3000, AzTurnRead, AzStep unwind]\<rparr>;
       a3 = point_to_after_loop cfg dev 0 (90 - ELEV_ZENITH_SAFETY_MARGIN_DEG cfg) a2
   in point_to cfg dev 0 60 a = Some a1
    \<and> point_to cfg dev 0 (90 - ELEV_ZENITH_SAFETY_MARGIN_DEG cfg) a2 = Some a3
    \<and> empty_water cfg dev a = Some a3
    \<and> history a1 = history a @ new_events a a1
    \<and> history a3 = history a @ new_events a a1 @ [Delay 3000, AzTurnRead, AzStep unwind]
                      @ new_events a2 a3
    \<and> filter is_step [Delay 3000, AzTurnRead, AzStep unwind] = [AzStep unwind]
    \<and> Delay 3000 \<notin> set (new_events a a1) \<and> Delay 3000 \<notin> set (new_events a2 a3)"
proof -
  define a1 where "a1 = point_to_after_loop cfg dev 0 60 a"
  define unwind where
    "unwind = wrap_int (wrap_int (wrap_int
                (az_encoder_turns dev (history a1 @ [Delay 3000]) - az_init_turn_count a)
                * AZ_MICRO_STEP_PER_TURN cfg) * AZ_REDUC cfg)"
  define a2 where
    "a2 = a1\<lparr>history := history a1 @ [Delay 3000, AzTurnRead, AzStep unwind]\<rparr>"
  define a3 where
    "a3 = point_to_after_loop cfg dev 0 (90 - ELEV_ZENITH_SAFETY_MARGIN_DEG cfg) a2"
  have init: "az_init_turn_count a1 = az_init_turn_count a"
    unfolding a1_def by (rule point_to_after_loop_init_turn_count)
  have p1: "point_to cfg dev 0 60 a = Some a1"
    unfolding a1_def by (rule point_to_returns) simp
  have p3: "point_to cfg dev 0 (90 - ELEV_ZENITH_SAFETY_MARGIN_DEG cfg) a2 = Some a3"
    unfolding a3_def by (rule point_to_returns) simp
  have "empty_water cfg dev a = go_home cfg dev (delay 3000 a1)"
    unfolding a1_def by (rule empty_water_unfolded)
  also have "\<dots> = Some a3"
    unfolding go_home_returns a3_def a2_def unwind_def
    by (simp add: delay_def init)
  finally have whole: "empty_water cfg dev a = Some a3" .
  have h1: "history a1 = history a @ new_events a a1"
    unfolding a1_def by (rule point_to_after_loop_extends)
  have "history a3 = history a2 @ new_events a2 a3"
    unfolding a3_def by (rule point_to_after_loop_extends)
  also have "history a2 = history a1 @ [Delay 3000, AzTurnRead, AzStep unwind]"
    by (simp add: a2_def)
  finally have h3: "history a3 = history a @ new_events a a1
      @ [Delay 3000, AzTurnRead, AzStep unwind] @ new_events a2 a3"
    using h1 by (simp only: append_assoc)
  have no_hold: "Delay ms \<notin> set (new_events b (point_to_after_loop cfg dev az_deg elev_deg b))"
    for ms b az_deg elev_deg
    by (simp add: new_events_def point_to_after_loop_history Let_def)
  have only: "filter is_step [Delay 3000, AzTurnRead, AzStep unwind] = [AzStep unwind]"
    by simp
  from p1 p3 whole h1 h3 only no_hold [of 3000 a 0 60]
    no_hold [of 3000 a2 0 "90 - ELEV_ZENITH_SAFETY_MARGIN_DEG cfg"]
  show ?thesis
    unfolding Let_def a3_def a2_def unwind_def a1_def by blast
qed

subsection \<open>The 350 degree scenario\<close>

text \<open>
  On a 4096-count encoder with north at 0, \<open>350/360 * 4096\<close> is 3982.2, so the target of
  \<open>point_to(350, _)\<close> is 3982, not 3981, and the difference after the shortest-path
  statement is \<open>3982 - 4096 = -114\<close>, not -115.
\<close>

theorem point_to_350_target_is_not_3981:
  "az_normalize 350 = Some 350
   \<and> az_target_encoder_val
        (test_config\<lparr>ENCODERS_MAX := 4096, AZ_NORTH_ENCODER_VAL := 0\<rparr>) 350 \<noteq> 3981
   \<and> take_shortest_path (test_config\<lparr>ENCODERS_MAX := 4096, AZ_NORTH_ENCODER_VAL := 0\<rparr>)
        (az_target_encoder_val
           (test_config\<lparr>ENCODERS_MAX := 4096, AZ_NORTH_ENCODER_VAL := 0\<rparr>) 350 - 0)
       \<noteq> - 115"
  by (simp add: az_target_encoder_val_def az_normalize_nonneg to_int_def c_mod_def c_div_def
      take_shortest_path_def)

text \<open>
  C9, amended. With \<open>ENCODERS_MAX = 4096\<close>, north at 0 and the azimuth encoder reading 0,
  \<open>point_to(350, _)\<close> leaves 350 as it is, computes the target 3982 and the difference
  3982, which exceeds 2048 and becomes \<open>3982 - 4096 = -114\<close>; the call returns and its
  main azimuth command is the microstep count of -114, the opposite of the count of 114:
  the move goes backward through zero.
\<close>

theorem point_to_350_goes_backward:
  "let cfg' = cfg\<lparr>ENCODERS_MAX := 4096, AZ_NORTH_ENCODER_VAL := 0\<rparr>;
       dev' = dev\<lparr>az_encoder_pos := (\<lambda>h. 0)\<rparr>;
       target = az_target_encoder_val cfg' 350
   in az_normalize 350 = Some 350
    \<and> target = 3982
    \<and> target - 0 > c_div (ENCODERS_MAX cfg') 2
    \<and> take_shortest_path cfg' (target - 0) = 3982 - 4096
    \<and> take_shortest_path cfg' (target - 0) = - 114
    \<and> map_option (\<lambda>a'. last (az_steps (new_events a a')))
         (point_to cfg' dev' 350 elev_deg a) = Some (az_step_to_turn cfg' (- 114))
    \<and> az_step_to_turn cfg' (- 114) = - az_step_to_turn cfg' 114"
proof -
  let ?cfg = "cfg\<lparr>ENCODERS_MAX := 4096, AZ_NORTH_ENCODER_VAL := 0\<rparr>"
  let ?dev = "dev\<lparr>az_encoder_pos := (\<lambda>h. 0)\<rparr>"
  have loop: "az_normalize 350 = Some 350"
    by (rule az_normalize_nonneg) simp
  have target: "az_target_encoder_val ?cfg 350 = 3982"
    by (simp add: az_target_encoder_val_def to_int_def c_mod_def c_div_def)
  have half: "c_div (ENCODERS_MAX ?cfg) 2 = 2048"
    by (simp add: c_div_def)
  have diff: "take_shortest_path ?cfg (3982 - 0) = - 114"
    by (simp add: take_shortest_path_def c_div_def)
  have negated: "az_step_to_turn ?cfg (- 114) = - az_step_to_turn ?cfg 114"
    unfolding az_step_to_turn_def using to_int_minus by simp
  have ret: "point_to ?cfg ?dev 350 elev_deg a
      = Some (point_to_after_loop ?cfg ?dev 350 elev_deg a)"
    by (rule point_to_returns) simp
  have "last (az_steps (new_events a (point_to_after_loop ?cfg ?dev 350 elev_deg a)))
        = az_step_to_turn ?cfg (- 114)"
    using diff
    by (simp add: new_events_def point_to_after_loop_history Let_def target az_steps_append)
  then have main: "map_option (\<lambda>a'. last (az_steps (new_events a a')))
         (point_to ?cfg ?dev 350 elev_deg a) = Some (az_step_to_turn ?cfg (- 114))"
    unfolding ret by simp
  show ?thesis
    unfolding Let_def target half using loop diff negated main by simp
qed

subsection \<open>The reference turn count\<close>

text \<open>
  C10. The constructor stores in \<open>az_init_turn_count\<close> the turn count read after the ten
  rounds of warm-up reads; a call of \<open>point_to\<close> that returns leaves
  \<open>az_init_turn_count\<close> as it was, and \<open>go_home\<close> and \<open>empty_water\<close> return and leave it
  as it was.
\<close>

theorem az_init_turn_count_written_once:
  "az_init_turn_count (Antenna dev h)
     = az_encoder_turns dev
         (h @ concat (replicate 10 [AzPosRead, Delay 50, ElevPosRead, Delay 50]))
   \<and> (point_to cfg dev az_deg elev_deg a = Some a' \<longrightarrow>
        az_init_turn_count a' = az_init_turn_count a)
   \<and> map_option az_init_turn_count (go_home cfg dev a) = Some (az_init_turn_count a)
   \<and> map_option az_init_turn_count (empty_water cfg dev a) = Some (az_init_turn_count a)"
proof -
  have ctor: "az_init_turn_count (Antenna dev h)
     = az_encoder_turns dev
         (h @ concat (replicate 10 [AzPosRead, Delay 50, ElevPosRead, Delay 50]))"
    by (simp only: Antenna_def Let_def clean_spi_bus_history antenna.simps)
  have home: "map_option az_init_turn_count (go_home cfg dev b) = Some (az_init_turn_count b)"
    for b
    by (simp add: go_home_returns point_to_after_loop_init_turn_count)
  have "map_option az_init_turn_count (empty_water cfg dev a)
      = Some (az_init_turn_count (delay 3000 (point_to_after_loop cfg dev 0 60 a)))"
    unfolding empty_water_unfolded by (rule home)
  also have "az_init_turn_count (delay 3000 (point_to_after_loop cfg dev 0 60 a))
      = az_init_turn_count a"
    by (simp add: delay_def point_to_after_loop_init_turn_count)
  finally have water:
    "map_option az_init_turn_count (empty_water cfg dev a) = Some (az_init_turn_count a)" .
  from ctor home [of a] water point_to_init_turn_count [of cfg dev az_deg elev_deg a a']
  show ?thesis by blast
qed

theorem az_init_turn_count_written_once_witness:
  "point_to test_config (turned_devices 3) 0 0 \<lparr>az_init_turn_count = 1, history = []\<rparr>
     = Some (point_to_after_loop test_config (turned_devices 3) 0 0
               \<lparr>az_init_turn_count = 1, history = []\<rparr>)
   \<and> az_init_turn_count (point_to_after_loop test_config (turned_devices 3) 0 0
        \<lparr>az_init_turn_count = 1, history = []\<rparr>) = 1
   \<and> az_init_turn_count (Antenna (turned_devices 3) []) = 3"
proof -
  have ret: "point_to test_config (turned_devices 3) 0 0 \<lparr>az_init_turn_count = 1, history = []\<rparr>
     = Some (point_to_after_loop test_config (turned_devices 3) 0 0
               \<lparr>az_init_turn_count = 1, history = []\<rparr>)"
    by (rule point_to_returns) simp
  from az_init_turn_count_written_once
    [where cfg = test_config and dev = "turned_devices 3" and az_deg = 0 and elev_deg = 0
       and a = "\<lparr>az_init_turn_count = 1, history = []\<rparr>" and h = "[]"
       and a' = "point_to_after_loop test_config (turned_devices 3) 0 0
                   \<lparr>az_init_turn_count = 1, history = []\<rparr>"]
  have "az_init_turn_count (Antenna (turned_devices 3) [])
          = az_encoder_turns (turned_devices 3)
              ([] @ concat (replicate 10 [AzPosRead, Delay 50, ElevPosRead, Delay 50]))"
    and "az_init_turn_count (point_to_after_loop test_config (turned_devices 3) 0 0
        \<lparr>az_init_turn_count = 1, history = []\<rparr>)
         = az_init_turn_count \<lparr>az_init_turn_count = 1, history = []\<rparr>"
    using ret by blast+
  then show ?thesis using ret by (simp add: turned_devices_def)
qed

end
